theory Spec2Isabelle
  imports Complex_Main "HOL-Library.Multiset"
begin

section \<open>Python strings and integer formatting\<close>

text \<open>
  A Python \<open>str\<close> is a sequence of Unicode code points and \<open>len\<close> counts code points,
  so a string is modelled as a list of code-point numbers. ASCII literals are
  injected with \<open>ascii\<close>.
\<close>

type_synonym pystr = "nat list"

definition ascii :: "string \<Rightarrow> pystr" where
  "ascii cs = map of_char cs"

text \<open>\<open>s * n\<close> on strings: \<open>n\<close> copies of \<open>s\<close>, the empty string when \<open>n \<le> 0\<close>.\<close>

definition str_mul :: "pystr \<Rightarrow> int \<Rightarrow> pystr" where
  "str_mul s n = concat (replicate (nat n) s)"

text \<open>Decimal digits of a natural number, most significant first (\<open>str(n)\<close> for \<open>n \<ge> 0\<close>).\<close>

fun digits :: "nat \<Rightarrow> pystr" where
  "digits n = (if n < 10 then [48 + n] else digits (n div 10) @ [48 + n mod 10])"

declare digits.simps [simp del]

text \<open>\<open>str(i)\<close> for an integer: a minus sign for negative numbers, then the digits.\<close>

definition str_int :: "int \<Rightarrow> pystr" where
  "str_int i = (if i < 0 then ascii ''-'' @ digits (nat (- i)) else digits (nat i))"

text \<open>
  The \<open>,\<close> option of the format mini-language: a comma before every group of three
  digits, counted from the right.
\<close>

fun group3 :: "pystr \<Rightarrow> pystr" where
  "group3 ds = (if length ds \<le> 3 then ds
                else group3 (take (length ds - 3) ds) @ ascii '','' @ drop (length ds - 3) ds)"

declare group3.simps [simp del]

definition str_int_comma :: "int \<Rightarrow> pystr" where
  "str_int_comma i =
     (if i < 0 then ascii ''-'' @ group3 (digits (nat (- i))) else group3 (digits (nat i)))"

text \<open>
  The \<open>>w\<close> alignment: pad with spaces on the left up to width \<open>w\<close>; a longer
  string is returned unchanged.
\<close>

definition rjust :: "nat \<Rightarrow> pystr \<Rightarrow> pystr" where
  "rjust w s = replicate (w - length s) 32 @ s"

text \<open>\<open>f"{i:>w}"\<close> and \<open>f"{i:>w,}"\<close> for an integer \<open>i\<close>.\<close>

definition fmt_int :: "nat \<Rightarrow> int \<Rightarrow> pystr" where
  "fmt_int w i = rjust w (str_int i)"

definition fmt_int_comma :: "nat \<Rightarrow> int \<Rightarrow> pystr" where
  "fmt_int_comma w i = rjust w (str_int_comma i)"

text \<open>\<open>sep.join(xs)\<close>.\<close>

fun str_join :: "pystr \<Rightarrow> pystr list \<Rightarrow> pystr" where
  "str_join sep [] = []"
| "str_join sep [x] = x"
| "str_join sep (x # y # ys) = x @ sep @ str_join sep (y # ys)"

text \<open>
  \<open>sorted(xs, key=key, reverse=True)\<close>: CPython reverses the list, sorts it with its
  stable ascending sort, and reverses the result, so that equal keys keep their order.
\<close>

definition sorted_reverse :: "('a \<Rightarrow> int) \<Rightarrow> 'a list \<Rightarrow> 'a list" where
  "sorted_reverse key xs = rev (sort_key key (rev xs))"

text \<open>
  The slice \<open>xs[:n]\<close>: the first \<open>n\<close> elements, and for negative \<open>n\<close> all but the
  last \<open>-n\<close>.
\<close>

definition slice_to :: "'a list \<Rightarrow> int \<Rightarrow> 'a list" where
  "slice_to xs n = (if n < 0 then take (length xs - nat (- n)) xs else take (nat n) xs)"

section \<open>models.py: FormattedLine\<close>

record FormattedLine =
  title :: pystr
  val :: pystr

text \<open>
  \<^verbatim>\<open>
  def format(self, separator, width):
      available_space = width - len(self.title) - len(self.value) - 2
      sep = f" {separator * max(available_space, 1)} "
      return f"{self.title}{sep}{self.value}"
  \<close>
\<close>

definition format :: "FormattedLine \<Rightarrow> pystr \<Rightarrow> int \<Rightarrow> pystr" where
  "format self separator width =
     (let available_space = width - int (length (title self)) - int (length (val self)) - 2;
          sep = ascii '' '' @ str_mul separator (max available_space 1) @ ascii '' ''
      in title self @ sep @ val self)"


section \<open>models.py: the statistics records\<close>

text \<open>
  The dataclasses \<open>LanguageStats\<close> and \<open>UserStats\<close>. The numeric fields are annotated
  \<open>int\<close> but nothing checks them at construction, so the records are parametric in the
  type \<open>'v\<close> of the values held there: the formatter works on \<open>int\<close> records as annotated,
  construction from a payload on records of dynamic values. The fields \<open>new_xp\<close> and
  \<open>level\<close> of \<open>UserStats\<close> are named \<open>user_new_xp\<close> and \<open>user_level\<close>, a record
  field name being global.
\<close>

record 'v LanguageStats =
  name :: pystr
  xp :: 'v
  new_xp :: 'v
  level :: int

record 'v UserStats =
  username :: pystr
  total_xp :: 'v
  user_new_xp :: 'v
  user_level :: int
  languages :: "'v LanguageStats list"

section \<open>config.py: settings\<close>

datatype StatsType = LEVEL_XP | RECENT_XP | XP

text \<open>
  The fields of \<open>Settings\<close> the modelled code reads. Validation bounds
  \<open>top_languages_count\<close> to 1..50 and \<open>max_line_length\<close> to 40..100.
\<close>

record Settings =
  gist_id :: pystr
  code_stats_username :: pystr
  stats_type :: StatsType
  top_languages_count :: int
  codestats_api_base_url :: pystr
  max_line_length :: int

definition get_codestats_url :: "Settings \<Rightarrow> pystr" where
  "get_codestats_url self = codestats_api_base_url self @ ascii ''/'' @ code_stats_username self"

section \<open>utils.py: value formatting\<close>

text \<open>
  \<^verbatim>\<open>
  def format_xp_value(xp, level, new_xp=None):
      base = f"lvl {level:>3} ({xp:>9,} XP)"
      if new_xp is not None and new_xp > 0:
          return f"{base} (+{new_xp:>6,})"
      return base

  def format_xp_only(xp):
      return f"{xp:>9,} XP"
  \<close>
\<close>

definition format_xp_value :: "int \<Rightarrow> int \<Rightarrow> int option \<Rightarrow> pystr" where
  "format_xp_value x lvl nx =
     (let base = ascii ''lvl '' @ fmt_int 3 lvl @ ascii '' ('' @ fmt_int_comma 9 x @ ascii '' XP)''
      in case nx of
           None \<Rightarrow> base
         | Some n \<Rightarrow> if n > 0 then base @ ascii '' (+'' @ fmt_int_comma 6 n @ ascii '')'' else base)"

definition format_xp_only :: "int \<Rightarrow> pystr" where
  "format_xp_only x = fmt_int_comma 9 x @ ascii '' XP''"

section \<open>formatter.py: GistFormatter\<close>

text \<open>The emoji of the titles and placeholder lines are given by their code points.\<close>

definition GIST_TITLES :: "StatsType \<Rightarrow> pystr" where
  "GIST_TITLES t =
     [129489, 127995, 8205, 128187] @
     (case t of
        LEVEL_XP \<Rightarrow> ascii '' My Code::Stats XP (Top Languages)''
      | RECENT_XP \<Rightarrow> ascii '' My Code::Stats XP (Recent Languages)''
      | XP \<Rightarrow> ascii '' My Code::Stats XP (Top Languages)'')"

definition NO_RECENT_ACTIVITY :: "FormattedLine list" where
  "NO_RECENT_ACTIVITY =
     [\<lparr>title = ascii ''Not been coding recently'', val = [128584]\<rparr>,
      \<lparr>title = ascii ''Probably busy with something else'', val = [128467]\<rparr>,
      \<lparr>title = ascii ''Or just taking a break'', val = [127796]\<rparr>,
      \<lparr>title = ascii ''But would be back to it soon!'', val = [129299]\<rparr>]"

definition get_title :: "Settings \<Rightarrow> pystr" where
  "get_title settings = GIST_TITLES (stats_type settings)"

definition format_total_line :: "Settings \<Rightarrow> int UserStats \<Rightarrow> FormattedLine" where
  "format_total_line settings stats =
     (let v = (if stats_type settings = XP then format_xp_only (total_xp stats)
               else if stats_type settings = RECENT_XP
                 then format_xp_value (total_xp stats) (user_level stats) (Some (user_new_xp stats))
               else format_xp_value (total_xp stats) (user_level stats) None)
      in \<lparr>title = ascii ''Total XP'', val = v\<rparr>)"

definition format_language_line :: "Settings \<Rightarrow> int LanguageStats \<Rightarrow> FormattedLine" where
  "format_language_line settings lang =
     (let v = (if stats_type settings = XP then format_xp_only (xp lang)
               else if stats_type settings = RECENT_XP
                 then format_xp_value (xp lang) (level lang) (Some (new_xp lang))
               else format_xp_value (xp lang) (level lang) None)
      in \<lparr>title = name lang, val = v\<rparr>)"

definition format_language_lines :: "Settings \<Rightarrow> int LanguageStats list \<Rightarrow> FormattedLine list" where
  "format_language_lines settings langs =
     (let top_count = top_languages_count settings
      in if stats_type settings = RECENT_XP then
           (let active_languages = filter (\<lambda>lang. new_xp lang > 0) langs;
                sorted_languages = slice_to (sorted_reverse new_xp active_languages) top_count
            in if sorted_languages = [] then NO_RECENT_ACTIVITY
               else map (format_language_line settings) sorted_languages)
         else
           map (format_language_line settings) (slice_to (sorted_reverse xp langs) top_count))"

definition get_formatted_lines :: "Settings \<Rightarrow> int UserStats \<Rightarrow> FormattedLine list" where
  "get_formatted_lines settings stats =
     format_total_line settings stats # format_language_lines settings (languages stats)"

definition format_content :: "Settings \<Rightarrow> int UserStats \<Rightarrow> pystr" where
  "format_content settings stats =
     str_join (ascii [CHR 0x0A])
       (map (\<lambda>line. format line (ascii '':'') (max_line_length settings))
            (get_formatted_lines settings stats))"

section \<open>Exceptions\<close>

text \<open>
  The exceptions the modelled code meets. \<open>py_exception\<close> are built-in exceptions of
  Python; of these \<open>OverflowError\<close> (an \<open>ArithmeticError\<close>) and \<open>AttributeError\<close> are
  not subclasses of \<open>KeyError\<close>, \<open>ValueError\<close> or \<open>TypeError\<close>. \<open>httpx_exception\<close> are the
  exceptions of the HTTP library: \<open>TimeoutException\<close> and \<open>NetworkError\<close> are subclasses of
  \<open>TransportError\<close>, itself a subclass of \<open>RequestError\<close>; \<open>OtherRequestError\<close> stands for
  the remaining subclasses of \<open>RequestError\<close>; \<open>HTTPStatusError\<close>, with the status code of
  its response, is not a \<open>RequestError\<close>. The last four are the classes of exceptions.py
  that can be raised, with the data their messages are built from.
\<close>

datatype py_exception = KeyError | ValueError | TypeError | AttributeError | OverflowError

datatype httpx_exception = TimeoutException | NetworkError | OtherRequestError | HTTPStatusError int

datatype api_failure =
    HTTPFailed pystr int
  | NetworkFailed pystr httpx_exception
  | ParseFailed pystr py_exception

datatype gist_failure = FetchFailed pystr | NoFiles pystr | UpdateFailed pystr

datatype exn =
    Py py_exception
  | Httpx httpx_exception
  | OtherException
  | ConfigurationError
  | CodeStatsAPIError api_failure
  | GitHubAPIError gist_failure
  | DataValidationError

fun is_RequestError :: "httpx_exception \<Rightarrow> bool" where
  "is_RequestError (HTTPStatusError c) = False"
| "is_RequestError e = True"

section \<open>Floating point\<close>

text \<open>
  \<open>calculate_level\<close> computes in IEEE 754 binary64. A finite double is modelled by a pair
  of integers: \<open>Finite m e\<close> denotes \<open>m * 2 ^ e\<close>. The results of the operations
  used here lie in the normal range, so rounding is to 53 significant bits with an
  unbounded exponent, ties to even; the two zeros are not distinguished (every operation
  used here gives the same result on both).
\<close>

datatype double = Finite int int | PosInf | NegInf | NaN

text \<open>\<open>int.bit_length\<close> for a non-negative integer.\<close>

function bit_length :: "int \<Rightarrow> int" where
  "bit_length n = (if n \<le> 0 then 0 else 1 + bit_length (n div 2))"
  by pat_completeness auto
termination
  by (relation "measure nat") auto

declare bit_length.simps [simp del]

text \<open>
  \<open>shift_round m s\<close> is \<open>m / 2 ^ s\<close> rounded to the nearest integer, ties to the even
  one, for \<open>m \<ge> 0\<close> and \<open>s \<ge> 1\<close>.
\<close>

definition shift_round :: "int \<Rightarrow> int \<Rightarrow> int" where
  "shift_round m s =
     (let q = m div 2 ^ nat s; r = m mod 2 ^ nat s; half = 2 ^ (nat s - 1)
      in if r > half \<or> (r = half \<and> odd q) then q + 1 else q)"

text \<open>Rounding of \<open>m * 2 ^ e\<close> to a mantissa of at most 53 bits.\<close>

definition round53 :: "int \<Rightarrow> int \<Rightarrow> int \<times> int" where
  "round53 m e =
     (let s = bit_length \<bar>m\<bar> - 53
      in if s \<le> 0 then (m, e) else (sgn m * shift_round \<bar>m\<bar> s, e + s))"

text \<open>
  Conversion of an integer to a double (\<open>PyLong_AsDouble\<close>): correctly rounded, and an
  \<open>OverflowError\<close> when the rounded value reaches \<open>2 ^ 1024\<close>.
\<close>

definition float_of_int :: "int \<Rightarrow> exn + int \<times> int" where
  "float_of_int i =
     (let (m, e) = round53 i 0
      in if bit_length \<bar>m\<bar> + e > 1024 then Inl (Py OverflowError) else Inr (m, e))"

text \<open>
  Integer square root by Newton's iteration from a starting value not below the root.
\<close>

function isqrt_iter :: "int \<Rightarrow> int \<Rightarrow> int" where
  "isqrt_iter n x =
     (if x \<le> 0 then 0
      else let y = (x + n div x) div 2 in if y < x then isqrt_iter n y else x)"
  by pat_completeness auto
termination
  by (relation "measure (\<lambda>(n, x). nat x)") auto

declare isqrt_iter.simps [simp del]

definition isqrt :: "int \<Rightarrow> int" where
  "isqrt n = isqrt_iter n (2 ^ nat ((bit_length n + 1) div 2))"

text \<open>
  \<open>math.sqrt\<close> on a finite double \<open>m * 2 ^ e\<close> with \<open>m \<ge> 0\<close>: the correctly rounded
  square root. The exponent is made even, \<open>s\<close> is the integer part of
  \<open>2 ^ 64 * sqrt m\<close>, which has more than 54 bits when \<open>m > 0\<close>, and the root is
  replaced by \<open>s\<close> when that is exact and by \<open>s + 1 / 2\<close> otherwise, which round alike.
\<close>

definition sqrt_double :: "int \<Rightarrow> int \<Rightarrow> int \<times> int" where
  "sqrt_double m e =
     (let (m', e') = (if even e then (m, e) else (2 * m, e - 1));
          n = m' * 4 ^ 64;
          s = isqrt n;
          sticky = (if s * s = n then 0 else 1)
      in round53 (2 * s + sticky) (e' div 2 - 65))"

text \<open>Multiplication of two finite doubles.\<close>

definition mul_double :: "int \<times> int \<Rightarrow> int \<times> int \<Rightarrow> int \<times> int" where
  "mul_double a b = round53 (fst a * fst b) (snd a + snd b)"

text \<open>\<open>math.floor\<close> on a finite double.\<close>

definition floor_double :: "int \<times> int \<Rightarrow> int" where
  "floor_double a = (if snd a \<ge> 0 then fst a * 2 ^ nat (snd a) else fst a div 2 ^ nat (- snd a))"

text \<open>
  The literal \<open>0.025\<close> denotes the double nearest to \<open>1 / 40\<close>: the quotient
  \<open>2 ^ 64 / 40\<close>, which is not an integer, is cut to its integer part plus one half.
\<close>

definition double_0_025 :: "int \<times> int" where
  "double_0_025 = round53 (2 * (2 ^ 64 div 40) + 1) (- 65)"

section \<open>utils.py: calculate_level\<close>

text \<open>
  \<^verbatim>\<open>
  def calculate_level(xp: int) -> int:
      if xp < 0:
          return 0
      return math.floor(0.025 * math.sqrt(xp))
  \<close>
  \<open>level_of_double\<close> is the second line on a finite double that is not negative.
\<close>

definition level_of_double :: "int \<times> int \<Rightarrow> int" where
  "level_of_double d = floor_double (mul_double double_0_025 (sqrt_double (fst d) (snd d)))"

text \<open>\<open>calculate_level\<close> on an integer, the annotated argument type.\<close>

definition level_of_int :: "int \<Rightarrow> exn + int" where
  "level_of_int x =
     (if x < 0 then Inr 0
      else case float_of_int x of
             Inl err \<Rightarrow> Inl err
           | Inr d \<Rightarrow> Inr (level_of_double d))"

text \<open>
  The values of a decoded JSON payload. A \<open>dict\<close> is an association list in iteration
  order; its keys are distinct.
\<close>

datatype pyval =
    PNone
  | PBool bool
  | PInt int
  | PFloat double
  | PStr pystr
  | PList "pyval list"
  | PDict "(pystr \<times> pyval) list"

text \<open>
  Nothing checks the annotation, so \<open>calculate_level\<close> is applied to whatever the payload
  holds. A \<open>bool\<close> is an integer. On a float, a NaN is not below zero, and \<open>math.floor\<close>
  raises \<open>ValueError\<close> on a NaN and \<open>OverflowError\<close> on an infinity. On any other value
  the comparison \<open>xp < 0\<close> raises \<open>TypeError\<close>.
\<close>

fun calculate_level :: "pyval \<Rightarrow> exn + int" where
  "calculate_level (PInt x) = level_of_int x"
| "calculate_level (PBool b) = level_of_int (if b then 1 else 0)"
| "calculate_level (PFloat (Finite m e)) = (if m < 0 then Inr 0 else Inr (level_of_double (m, e)))"
| "calculate_level (PFloat NegInf) = Inr 0"
| "calculate_level (PFloat PosInf) = Inl (Py OverflowError)"
| "calculate_level (PFloat NaN) = Inl (Py ValueError)"
| "calculate_level v = Inl (Py TypeError)"

text \<open>The values that are no numbers: \<open>None\<close>, strings, lists and dictionaries.\<close>

fun non_numeric :: "pyval \<Rightarrow> bool" where
  "non_numeric PNone = True"
| "non_numeric (PStr s) = True"
| "non_numeric (PList xs) = True"
| "non_numeric (PDict kvs) = True"
| "non_numeric v = False"

section \<open>models.py: construction from the payload\<close>

text \<open>\<open>d.get(k, default)\<close> on the items of a \<open>dict\<close>.\<close>

definition dict_get :: "(pystr \<times> pyval) list \<Rightarrow> pystr \<Rightarrow> pyval \<Rightarrow> pyval" where
  "dict_get kvs k dflt = (case map_of kvs k of Some v \<Rightarrow> v | None \<Rightarrow> dflt)"

text \<open>\<open>len(v)\<close>.\<close>

fun py_len :: "pyval \<Rightarrow> exn + int" where
  "py_len (PStr s) = Inr (int (length s))"
| "py_len (PList xs) = Inr (int (length xs))"
| "py_len (PDict kvs) = Inr (int (length kvs))"
| "py_len v = Inl (Py TypeError)"

text \<open>
  \<^verbatim>\<open>
  def from_api_response(cls, name, data):
      xp = data.get("xps", 0)
      new_xp = data.get("new_xps", 0)
      level = calculate_level(xp)
      return cls(name=name, xp=xp, new_xp=new_xp, level=level)
  \<close>
  A value that is not a \<open>dict\<close> has no \<open>get\<close>: \<open>AttributeError\<close>.
\<close>

fun LanguageStats_from_api_response :: "pystr \<Rightarrow> pyval \<Rightarrow> exn + pyval LanguageStats" where
  "LanguageStats_from_api_response nm (PDict kvs) =
     (let x = dict_get kvs (ascii ''xps'') (PInt 0);
          nx = dict_get kvs (ascii ''new_xps'') (PInt 0)
      in case calculate_level x of
           Inl err \<Rightarrow> Inl err
         | Inr lvl \<Rightarrow> Inr \<lparr>name = nm, xp = x, new_xp = nx, level = lvl\<rparr>)"
| "LanguageStats_from_api_response nm v = Inl (Py AttributeError)"

text \<open>The list comprehension over \<open>languages_data.items()\<close>: the first exception ends it.\<close>

fun languages_from_items :: "(pystr \<times> pyval) list \<Rightarrow> exn + pyval LanguageStats list" where
  "languages_from_items [] = Inr []"
| "languages_from_items ((nm, lang_data) # rest) =
     (case LanguageStats_from_api_response nm lang_data of
        Inl err \<Rightarrow> Inl err
      | Inr lang \<Rightarrow>
          (case languages_from_items rest of
             Inl err \<Rightarrow> Inl err
           | Inr langs \<Rightarrow> Inr (lang # langs)))"

text \<open>
  \<^verbatim>\<open>
  def from_api_response(cls, username, data):
      total_xp = data.get("total_xp", 0)
      new_xp = data.get("new_xp", 0)
      level = calculate_level(total_xp)
      languages_data = data.get("languages", {})
      languages = [LanguageStats.from_api_response(name, lang_data)
                   for name, lang_data in languages_data.items()]
      return cls(username=username, total_xp=total_xp, new_xp=new_xp, level=level,
                 languages=languages)
  \<close>
\<close>

fun UserStats_from_api_response :: "pystr \<Rightarrow> pyval \<Rightarrow> exn + pyval UserStats" where
  "UserStats_from_api_response uname (PDict kvs) =
     (let t = dict_get kvs (ascii ''total_xp'') (PInt 0);
          nx = dict_get kvs (ascii ''new_xp'') (PInt 0)
      in case calculate_level t of
           Inl err \<Rightarrow> Inl err
         | Inr lvl \<Rightarrow>
             (case dict_get kvs (ascii ''languages'') (PDict []) of
                PDict items \<Rightarrow>
                  (case languages_from_items items of
                     Inl err \<Rightarrow> Inl err
                   | Inr langs \<Rightarrow>
                       Inr \<lparr>username = uname, total_xp = t, user_new_xp = nx, user_level = lvl,
                            languages = langs\<rparr>)
              | _ \<Rightarrow> Inl (Py AttributeError)))"
| "UserStats_from_api_response uname v = Inl (Py AttributeError)"

section \<open>api.py: CodeStatsClient\<close>

text \<open>
  What \<open>self.client.get(url)\<close> does on one attempt: it raises, or it returns a response
  with a status code and a body; the body is \<open>None\<close> when it is not JSON, and
  \<open>response.json()\<close> then raises a \<open>ValueError\<close>.
\<close>

datatype http_result = Raised exn | Response int "pyval option"

text \<open>\<open>response.raise_for_status()\<close> raises \<open>HTTPStatusError\<close> unless the status is 2xx.\<close>

definition is_success :: "int \<Rightarrow> bool" where
  "is_success status = (200 \<le> status \<and> status \<le> 299)"

text \<open>
  The \<open>try\<close> block of \<open>get_user_stats\<close>: the request, the status check, the decoding, the
  log entry (which reads \<open>data.get("total_xp", 0)\<close> and \<open>len(data.get("languages", {}))\<close>)
  and the construction.
\<close>

fun fetch_and_build :: "pystr \<Rightarrow> http_result \<Rightarrow> exn + pyval UserStats" where
  "fetch_and_build uname (Raised err) = Inl err"
| "fetch_and_build uname (Response status body) =
     (if \<not> is_success status then Inl (Httpx (HTTPStatusError status))
      else case body of
             None \<Rightarrow> Inl (Py ValueError)
           | Some (PDict kvs) \<Rightarrow>
               (case py_len (dict_get kvs (ascii ''languages'') (PDict [])) of
                  Inl err \<Rightarrow> Inl err
                | Inr n \<Rightarrow> UserStats_from_api_response uname (PDict kvs))
           | Some v \<Rightarrow> Inl (Py AttributeError))"

text \<open>
  The \<open>except\<close> clauses, in their order: \<open>HTTPStatusError\<close>, then \<open>RequestError\<close>, then
  \<open>(KeyError, ValueError, TypeError)\<close>; any other exception propagates.
\<close>

fun handle_exception :: "pystr \<Rightarrow> exn \<Rightarrow> exn" where
  "handle_exception uname (Httpx (HTTPStatusError status)) =
     CodeStatsAPIError (HTTPFailed uname status)"
| "handle_exception uname (Httpx err) =
     (if is_RequestError err then CodeStatsAPIError (NetworkFailed uname err) else Httpx err)"
| "handle_exception uname (Py KeyError) = CodeStatsAPIError (ParseFailed uname KeyError)"
| "handle_exception uname (Py ValueError) = CodeStatsAPIError (ParseFailed uname ValueError)"
| "handle_exception uname (Py TypeError) = CodeStatsAPIError (ParseFailed uname TypeError)"
| "handle_exception uname err = err"

text \<open>The body of \<open>get_user_stats\<close>, one attempt.\<close>

definition get_user_stats_attempt :: "Settings \<Rightarrow> http_result \<Rightarrow> exn + pyval UserStats" where
  "get_user_stats_attempt settings r =
     (let uname = code_stats_username settings
      in case fetch_and_build uname r of
           Inl err \<Rightarrow> Inl (handle_exception uname err)
         | Inr stats \<Rightarrow> Inr stats)"

text \<open>
  The decorator
  \<^verbatim>\<open>
  @retry(stop=stop_after_attempt(3),
         wait=wait_exponential(multiplier=1, min=2, max=10),
         retry=retry_if_exception_type((httpx.TimeoutException, httpx.NetworkError)),
         reraise=True)
  \<close>
  calls the body; an exception of one of the two classes is retried after a wait unless
  the attempt number has reached 3, and with \<open>reraise\<close> the last exception is raised as it
  is; any other exception is raised at once. The result records the number of attempts
  made and the waits, in seconds.
\<close>

definition retry_if_exception_type :: "exn \<Rightarrow> bool" where
  "retry_if_exception_type err = (err = Httpx TimeoutException \<or> err = Httpx NetworkError)"

definition stop_after_attempt :: nat where
  "stop_after_attempt = 3"

definition wait_exponential :: "nat \<Rightarrow> nat" where
  "wait_exponential attempt_number = max 2 (min (1 * 2 ^ (attempt_number - 1)) 10)"

function retry :: "(nat \<Rightarrow> exn + 'a) \<Rightarrow> nat \<Rightarrow> nat list \<Rightarrow> (exn + 'a) \<times> nat \<times> nat list" where
  "retry body attempt_number waits =
     (case body attempt_number of
        Inr v \<Rightarrow> (Inr v, attempt_number, waits)
      | Inl err \<Rightarrow>
          if retry_if_exception_type err \<and> attempt_number < stop_after_attempt
          then retry body (Suc attempt_number) (waits @ [wait_exponential attempt_number])
          else (Inl err, attempt_number, waits))"
  by pat_completeness auto
termination
  by (relation "measure (\<lambda>(body, attempt_number, waits). stop_after_attempt - attempt_number)") auto

declare retry.simps [simp del]

text \<open>
  \<open>get_user_stats\<close> as decorated; \<open>transport n\<close> is what the request of attempt \<open>n\<close> does.
\<close>

definition get_user_stats ::
  "Settings \<Rightarrow> (nat \<Rightarrow> http_result) \<Rightarrow> (exn + pyval UserStats) \<times> nat \<times> nat list" where
  "get_user_stats settings transport =
     retry (\<lambda>n. get_user_stats_attempt settings (transport n)) 1 []"

section \<open>gist.py: GistUpdater\<close>

text \<open>
  Modelled from the spec: the snippet store, a remote service. A record has an ordered
  mapping of named content sections (label to body); a write replaces one section's label
  and body and leaves the order of the sections as it is. \<open>get_fails\<close> and \<open>edit_fails\<close>
  say whether the read and the write raise, and \<open>edits\<close> lists the writes requested.
\<close>

record gist_store =
  files :: "(pystr \<times> pystr) list"
  get_fails :: bool
  edit_fails :: bool
  edits :: "(pystr \<times> pystr \<times> pystr) list"

definition get_gist :: "gist_store \<Rightarrow> exn + (pystr \<times> pystr) list" where
  "get_gist st = (if get_fails st then Inl OtherException else Inr (files st))"

definition gist_edit :: "pystr \<Rightarrow> pystr \<Rightarrow> pystr \<Rightarrow> gist_store \<Rightarrow> exn option \<times> gist_store" where
  "gist_edit old_title content new_title st =
     (let st' = st\<lparr>edits := edits st @ [(old_title, new_title, content)]\<rparr>
      in if edit_fails st then (Some OtherException, st')
         else (None, st'\<lparr>files := map (\<lambda>(k, v). if k = old_title then (new_title, content)
                                                 else (k, v)) (files st)\<rparr>))"

text \<open>
  \<^verbatim>\<open>
  def update_gist(self, title, content):
      gist_id = self.settings.gist_id
      try:
          gist = self.github.get_gist(gist_id)
      except Exception as e:
          raise GitHubAPIError(f"Failed to fetch gist {gist_id}: {e}") from e
      if not gist.files:
          raise GitHubAPIError(f"Gist {gist_id} has no files")
      old_title = list(gist.files.keys())[0]
      old_file = gist.files[old_title]
      current_content = old_file.content
      if current_content == content and old_title == title:
          return False
      try:
          gist.edit(files={old_title: InputFileContent(content, title)})
          return True
      except Exception as e:
          raise GitHubAPIError(f"Failed to update gist {gist_id}: {e}") from e
  \<close>
\<close>

definition update_gist ::
  "Settings \<Rightarrow> pystr \<Rightarrow> pystr \<Rightarrow> gist_store \<Rightarrow> (exn + bool) \<times> gist_store" where
  "update_gist settings new_title content st =
     (case get_gist st of
        Inl err \<Rightarrow> (Inl (GitHubAPIError (FetchFailed (gist_id settings))), st)
      | Inr [] \<Rightarrow> (Inl (GitHubAPIError (NoFiles (gist_id settings))), st)
      | Inr ((old_title, current_content) # rest) \<Rightarrow>
          if current_content = content \<and> old_title = new_title then (Inr False, st)
          else (case gist_edit old_title content new_title st of
                  (Some err, st') \<Rightarrow> (Inl (GitHubAPIError (UpdateFailed (gist_id settings))), st')
                | (None, st') \<Rightarrow> (Inr True, st')))"

section \<open>Line formatter\<close>

lemma str_mul_single: "str_mul [c] n = replicate (nat n) c"
  by (induction "nat n" arbitrary: n) (simp_all add: str_mul_def replicate_app_Cons_same)

text \<open>
  C8. For a separator consisting of the single character \<open>c\<close>, the rendered line is exactly
  label, one space, \<open>N\<close> copies of \<open>c\<close>, one space, value, where
  \<open>N = max (width - len label - len value - 2) 1\<close>; the run has at least one character.
\<close>

theorem format_single_separator:
  "format \<lparr>title = label, val = v\<rparr> [c] width =
     label @ [32] @ replicate (nat (max (width - int (length label) - int (length v) - 2) 1)) c
       @ [32] @ v
   \<and> 1 \<le> nat (max (width - int (length label) - int (length v) - 2) 1)"
  by (simp add: format_def Let_def str_mul_single ascii_def)

text \<open>
  C10. For a single-character separator the length of the rendered line is
  \<open>max width (len label + len value + 3)\<close>.
\<close>

theorem format_length:
  "int (length (format \<lparr>title = label, val = v\<rparr> [c] width)) =
     max width (int (length label) + int (length v) + 3)"
  by (simp add: format_def Let_def str_mul_single ascii_def max_def)

section \<open>Content formatter\<close>

subsection \<open>The descending stable sort and the slice\<close>

lemma sorted_reverse_mset: "mset (sorted_reverse key xs) = mset xs"
  by (simp add: sorted_reverse_def)

lemma sorted_reverse_descending:
  "sorted_wrt (\<lambda>a b. key a \<ge> key b) (sorted_reverse key xs)"
proof -
  have "sorted (map key (sort_key key (rev xs)))" by simp
  then have "sorted_wrt (\<lambda>a b. key a \<le> key b) (sort_key key (rev xs))"
    by (simp only: sorted_map)
  then show ?thesis
    by (simp add: sorted_reverse_def sorted_wrt_rev)
qed

lemma sorted_reverse_stable:
  "filter (\<lambda>l. key l = k) (sorted_reverse key xs) = filter (\<lambda>l. key l = k) xs"
  by (simp add: sorted_reverse_def sort_key_stable flip: rev_filter)

lemma sorted_reverse_Nil_iff: "sorted_reverse key xs = [] \<longleftrightarrow> xs = []"
  using sorted_reverse_mset [of key xs] by (metis mset_zero_iff)

lemma slice_to_nonneg: "0 \<le> n \<Longrightarrow> slice_to xs n = take (nat n) xs"
  by (simp add: slice_to_def)

lemma format_content_lines:
  "format_content s st =
     str_join (ascii [CHR 0x0A])
       (map (\<lambda>line. format line (ascii '':'') (max_line_length s))
          (format_total_line s st # format_language_lines s (languages st)))"
  by (simp add: format_content_def get_formatted_lines_def)

subsection \<open>Language selection\<close>

text \<open>
  C5. In the modes \<open>LEVEL_XP\<close> and \<open>XP\<close>, for a top-language count that is not negative
  (the settings bound it to 1..50), the language lines are the renderings, in order, of the
  first \<open>top_languages_count\<close> elements of \<open>sorted_reverse xp langs\<close>. That list is a
  permutation of the languages, descending by \<open>xp\<close>, in which languages of equal \<open>xp\<close>
  keep their payload order. The content is the total line followed by these lines, one per
  output line.
\<close>

theorem top_languages_by_xp:
  assumes "stats_type s \<noteq> RECENT_XP" and "0 \<le> top_languages_count s"
  shows "format_language_lines s langs =
           map (format_language_line s)
             (take (nat (top_languages_count s)) (sorted_reverse xp langs))
       \<and> mset (sorted_reverse xp langs) = mset langs
       \<and> sorted_wrt (\<lambda>a b. xp a \<ge> xp b) (sorted_reverse xp langs)
       \<and> (\<forall>k. filter (\<lambda>l. xp l = k) (sorted_reverse xp langs) = filter (\<lambda>l. xp l = k) langs)
       \<and> format_content s \<lparr>username = u, total_xp = t, user_new_xp = n, user_level = lv,
                              languages = langs\<rparr> =
           str_join (ascii [CHR 0x0A])
             (map (\<lambda>line. format line (ascii '':'') (max_line_length s))
                (format_total_line s \<lparr>username = u, total_xp = t, user_new_xp = n,
                                        user_level = lv, languages = langs\<rparr>
                 # map (format_language_line s)
                     (take (nat (top_languages_count s)) (sorted_reverse xp langs))))"
  using assms
  by (simp add: format_language_lines_def format_content_def get_formatted_lines_def
      slice_to_nonneg sorted_reverse_mset sorted_reverse_descending sorted_reverse_stable)

text \<open>
  The languages A (xp 500), B (xp 1500), C (xp 1000) with a count of 2 give the lines of
  B and C, in that order.
\<close>

theorem top_languages_by_xp_witness:
  "stats_type \<lparr>gist_id = [], code_stats_username = [], stats_type = LEVEL_XP,
      top_languages_count = 2, codestats_api_base_url = [], max_line_length = 54\<rparr> \<noteq> RECENT_XP
   \<and> map title
        (format_language_lines
           \<lparr>gist_id = [], code_stats_username = [], stats_type = LEVEL_XP,
              top_languages_count = 2, codestats_api_base_url = [], max_line_length = 54\<rparr>
           [\<lparr>name = ascii ''A'', xp = 500, new_xp = 0, level = 0\<rparr>,
            \<lparr>name = ascii ''B'', xp = 1500, new_xp = 0, level = 0\<rparr>,
            \<lparr>name = ascii ''C'', xp = 1000, new_xp = 0, level = 0\<rparr>]) =
       [ascii ''B'', ascii ''C'']"
  using top_languages_by_xp
    [of "\<lparr>gist_id = [], code_stats_username = [], stats_type = LEVEL_XP,
           top_languages_count = 2, codestats_api_base_url = [], max_line_length = 54\<rparr>"
        "[\<lparr>name = ascii ''A'', xp = 500, new_xp = 0, level = 0\<rparr>,
          \<lparr>name = ascii ''B'', xp = 1500, new_xp = 0, level = 0\<rparr>,
          \<lparr>name = ascii ''C'', xp = 1000, new_xp = 0, level = 0\<rparr>]"]
  by (simp add: sorted_reverse_def format_language_line_def)

text \<open>
  C6. In the mode \<open>RECENT_XP\<close>, for a top-language count of at least 1, the language lines
  are the placeholder block when no language has \<open>new_xp > 0\<close>, and otherwise the renderings,
  in order, of the first \<open>top_languages_count\<close> languages with \<open>new_xp > 0\<close> sorted
  descending by \<open>new_xp\<close>, equal values keeping their payload order. When every language
  has \<open>new_xp = 0\<close> the language lines are the four placeholder lines, whatever the total
  XP, and the content is the total line followed by them.
\<close>

theorem recent_languages:
  assumes "stats_type s = RECENT_XP" and "1 \<le> top_languages_count s"
  shows "format_language_lines s langs =
           (if filter (\<lambda>l. new_xp l > 0) langs = [] then NO_RECENT_ACTIVITY
            else map (format_language_line s)
                   (take (nat (top_languages_count s))
                      (sorted_reverse new_xp (filter (\<lambda>l. new_xp l > 0) langs))))
       \<and> mset (sorted_reverse new_xp (filter (\<lambda>l. new_xp l > 0) langs)) =
           mset (filter (\<lambda>l. new_xp l > 0) langs)
       \<and> sorted_wrt (\<lambda>a b. new_xp a \<ge> new_xp b)
           (sorted_reverse new_xp (filter (\<lambda>l. new_xp l > 0) langs))
       \<and> (\<forall>k. filter (\<lambda>l. new_xp l = k)
                 (sorted_reverse new_xp (filter (\<lambda>l. new_xp l > 0) langs)) =
               filter (\<lambda>l. new_xp l = k) (filter (\<lambda>l. new_xp l > 0) langs))
       \<and> ((\<forall>l \<in> set langs. new_xp l = 0) \<longrightarrow>
            format_language_lines s langs = NO_RECENT_ACTIVITY
          \<and> format_content s \<lparr>username = u, total_xp = t, user_new_xp = n, user_level = lv,
                                 languages = langs\<rparr> =
              str_join (ascii [CHR 0x0A])
                (map (\<lambda>line. format line (ascii '':'') (max_line_length s))
                   (format_total_line s \<lparr>username = u, total_xp = t, user_new_xp = n,
                                           user_level = lv, languages = langs\<rparr>
                    # NO_RECENT_ACTIVITY)))
       \<and> map (\<lambda>line. (title line, val line)) NO_RECENT_ACTIVITY =
           [(ascii ''Not been coding recently'', [128584]),
            (ascii ''Probably busy with something else'', [128467]),
            (ascii ''Or just taking a break'', [127796]),
            (ascii ''But would be back to it soon!'', [129299])]"
proof -
  let ?act = "filter (\<lambda>l. new_xp l > 0) langs"
  let ?n = "top_languages_count s"
  have n: "slice_to (sorted_reverse new_xp ?act) ?n = take (nat ?n) (sorted_reverse new_xp ?act)"
    using assms(2) by (simp add: slice_to_nonneg)
  have empty: "take (nat ?n) (sorted_reverse new_xp ?act) = [] \<longleftrightarrow> ?act = []"
    using assms(2) by (simp add: sorted_reverse_Nil_iff)
  have lines: "format_language_lines s langs =
           (if ?act = [] then NO_RECENT_ACTIVITY
            else map (format_language_line s) (take (nat ?n) (sorted_reverse new_xp ?act)))"
    using assms(1) empty by (simp add: format_language_lines_def Let_def n)
  have zero: "?act = []" if "\<forall>l \<in> set langs. new_xp l = 0"
    using that by (simp add: filter_empty_conv)
  have placeholder: "map (\<lambda>line. (title line, val line)) NO_RECENT_ACTIVITY =
           [(ascii ''Not been coding recently'', [128584]),
            (ascii ''Probably busy with something else'', [128467]),
            (ascii ''Or just taking a break'', [127796]),
            (ascii ''But would be back to it soon!'', [129299])]"
    by (simp add: NO_RECENT_ACTIVITY_def)
  show ?thesis
    using lines zero placeholder
    by (simp add: format_content_lines sorted_reverse_mset sorted_reverse_descending
        sorted_reverse_stable)
qed

text \<open>
  Two languages without recent XP give the placeholder block; with recent XP 0, 30 and 70
  and a count of 1 the only line is the one of the language with 70.
\<close>

theorem recent_languages_witness:
  "format_language_lines
     \<lparr>gist_id = [], code_stats_username = [], stats_type = RECENT_XP,
        top_languages_count = 1, codestats_api_base_url = [], max_line_length = 54\<rparr>
     [\<lparr>name = ascii ''A'', xp = 500, new_xp = 0, level = 0\<rparr>,
      \<lparr>name = ascii ''B'', xp = 1500, new_xp = 0, level = 0\<rparr>] = NO_RECENT_ACTIVITY
   \<and> map title
        (format_language_lines
           \<lparr>gist_id = [], code_stats_username = [], stats_type = RECENT_XP,
              top_languages_count = 1, codestats_api_base_url = [], max_line_length = 54\<rparr>
           [\<lparr>name = ascii ''A'', xp = 500, new_xp = 0, level = 0\<rparr>,
            \<lparr>name = ascii ''B'', xp = 1500, new_xp = 30, level = 0\<rparr>,
            \<lparr>name = ascii ''C'', xp = 1000, new_xp = 70, level = 0\<rparr>]) = [ascii ''C'']"
  using
    recent_languages
      [of "\<lparr>gist_id = [], code_stats_username = [], stats_type = RECENT_XP,
             top_languages_count = 1, codestats_api_base_url = [], max_line_length = 54\<rparr>"
          "[\<lparr>name = ascii ''A'', xp = 500, new_xp = 0, level = 0\<rparr>,
            \<lparr>name = ascii ''B'', xp = 1500, new_xp = 0, level = 0\<rparr>]"]
    recent_languages
      [of "\<lparr>gist_id = [], code_stats_username = [], stats_type = RECENT_XP,
             top_languages_count = 1, codestats_api_base_url = [], max_line_length = 54\<rparr>"
          "[\<lparr>name = ascii ''A'', xp = 500, new_xp = 0, level = 0\<rparr>,
            \<lparr>name = ascii ''B'', xp = 1500, new_xp = 30, level = 0\<rparr>,
            \<lparr>name = ascii ''C'', xp = 1000, new_xp = 70, level = 0\<rparr>]"]
  by (simp add: sorted_reverse_def format_language_line_def)

subsection \<open>Value rendering\<close>

text \<open>
  C7. The value of the total line and of a language line, from that line's own XP, level
  and recent XP: in mode \<open>XP\<close> the comma-grouped XP right-aligned to 9 characters and
  \<open>" XP"\<close>; in mode \<open>LEVEL_XP\<close> \<open>"lvl "\<close>, the level right-aligned to 3 characters,
  \<open>" ("\<close>, the comma-grouped XP right-aligned to 9 characters and \<open>" XP)"\<close>; in mode
  \<open>RECENT_XP\<close> the \<open>LEVEL_XP\<close> rendering, followed by \<open>" (+"\<close>, the comma-grouped recent
  XP right-aligned to 6 characters and \<open>")"\<close> exactly when the recent XP is positive.
\<close>

theorem value_rendering:
  "val (format_total_line (s\<lparr>stats_type := XP\<rparr>) st) =
     rjust 9 (str_int_comma (total_xp st)) @ ascii '' XP''
 \<and> val (format_language_line (s\<lparr>stats_type := XP\<rparr>) lang) =
     rjust 9 (str_int_comma (xp lang)) @ ascii '' XP''
 \<and> val (format_total_line (s\<lparr>stats_type := LEVEL_XP\<rparr>) st) =
     ascii ''lvl '' @ rjust 3 (str_int (user_level st)) @ ascii '' ('' @
     rjust 9 (str_int_comma (total_xp st)) @ ascii '' XP)''
 \<and> val (format_language_line (s\<lparr>stats_type := LEVEL_XP\<rparr>) lang) =
     ascii ''lvl '' @ rjust 3 (str_int (level lang)) @ ascii '' ('' @
     rjust 9 (str_int_comma (xp lang)) @ ascii '' XP)''
 \<and> val (format_total_line (s\<lparr>stats_type := RECENT_XP\<rparr>) st) =
     val (format_total_line (s\<lparr>stats_type := LEVEL_XP\<rparr>) st) @
     (if user_new_xp st > 0
      then ascii '' (+'' @ rjust 6 (str_int_comma (user_new_xp st)) @ ascii '')'' else [])
 \<and> val (format_language_line (s\<lparr>stats_type := RECENT_XP\<rparr>) lang) =
     val (format_language_line (s\<lparr>stats_type := LEVEL_XP\<rparr>) lang) @
     (if new_xp lang > 0
      then ascii '' (+'' @ rjust 6 (str_int_comma (new_xp lang)) @ ascii '')'' else [])"
  by (simp add: format_total_line_def format_language_line_def format_xp_only_def
      format_xp_value_def fmt_int_def fmt_int_comma_def Let_def)

section \<open>Fetch client\<close>

subsection \<open>The body never raises a retried exception\<close>

lemma handle_exception_not_retried: "\<not> retry_if_exception_type (handle_exception u err)"
  by (cases "(u, err)" rule: handle_exception.cases)
     (simp_all add: retry_if_exception_type_def)

lemma retry_no_retry:
  "body n = Inl err \<Longrightarrow> \<not> retry_if_exception_type err \<Longrightarrow> retry body n ws = (Inl err, n, ws)"
  by (subst retry.simps) simp

lemma retry_success: "body n = Inr v \<Longrightarrow> retry body n ws = (Inr v, n, ws)"
  by (subst retry.simps) simp

text \<open>
  The wrapper by itself does retry: a body that lets \<open>TimeoutException\<close> escape is called
  three times, with two waits.
\<close>

lemma retry_wrapper_retries:
  "retry (\<lambda>n. Inl (Httpx TimeoutException) :: exn + unit) 1 [] =
     (Inl (Httpx TimeoutException), 3, [2, 2])"
  by (simp add: retry.simps retry_if_exception_type_def stop_after_attempt_def
      wait_exponential_def)

text \<open>
  The body of \<open>get_user_stats\<close> turns every \<open>RequestError\<close> into a \<open>CodeStatsAPIError\<close>
  before the wrapper sees it, so the decorated function makes one attempt, whatever the
  transport does.
\<close>

lemma get_user_stats_one_attempt:
  "get_user_stats settings transport =
     (get_user_stats_attempt settings (transport 1), 1, [])"
proof (cases "get_user_stats_attempt settings (transport 1)")
  case (Inl err)
  then have "\<not> retry_if_exception_type err"
    by (auto simp: get_user_stats_attempt_def Let_def handle_exception_not_retried
        split: sum.splits)
  with Inl show ?thesis
    by (simp add: get_user_stats_def retry_no_retry)
next
  case (Inr v)
  then show ?thesis
    by (simp add: get_user_stats_def retry_success)
qed

subsection \<open>Transport failures\<close>

text \<open>
  C1. A request that times out on every attempt: the code makes one attempt, waits never,
  and raises \<open>CodeStatsAPIError\<close>. The claim asks for three attempts.
\<close>

theorem timeout_is_not_retried:
  "get_user_stats settings (\<lambda>n. Raised (Httpx TimeoutException)) =
     (Inl (CodeStatsAPIError (NetworkFailed (code_stats_username settings) TimeoutException)),
      1, [])"
  by (simp add: get_user_stats_one_attempt get_user_stats_attempt_def)

subsection \<open>HTTP status failures\<close>

text \<open>
  C4. When the response of the first attempt has a status that is not 2xx,
  \<open>get_user_stats\<close> raises \<open>CodeStatsAPIError\<close> with that status code after exactly one
  attempt and no wait.
\<close>

theorem non_2xx_fails_without_retry:
  assumes "transport 1 = Response status body" and "\<not> is_success status"
  shows "get_user_stats settings transport =
           (Inl (CodeStatsAPIError (HTTPFailed (code_stats_username settings) status)), 1, [])"
  using assms by (simp add: get_user_stats_one_attempt get_user_stats_attempt_def)

theorem non_2xx_fails_without_retry_witness:
  "get_user_stats
     \<lparr>gist_id = [], code_stats_username = ascii ''u'', stats_type = LEVEL_XP,
        top_languages_count = 10, codestats_api_base_url = [], max_line_length = 54\<rparr>
     (\<lambda>n. Response 404 None) =
   (Inl (CodeStatsAPIError (HTTPFailed (ascii ''u'') 404)), 1, [])"
  using non_2xx_fails_without_retry
    [of "\<lambda>n. Response 404 None" 404 None
        "\<lparr>gist_id = [], code_stats_username = ascii ''u'', stats_type = LEVEL_XP,
           top_languages_count = 10, codestats_api_base_url = [], max_line_length = 54\<rparr>"]
  by (simp add: is_success_def)

section \<open>Update client\<close>

text \<open>
  C3. On a record that can be read and has a first section \<open>(l, b)\<close>: when \<open>b\<close> is the
  new content and \<open>l\<close> the new title, \<open>update_gist\<close> returns \<open>False\<close> and leaves the store,
  with its list of writes, as it was; otherwise it requests exactly one write, of the new
  title and content to the section \<open>l\<close>, and when that write succeeds it returns \<open>True\<close>
  and the first section is the new title and content. When writes succeed, a second call
  with the same title and content returns \<open>False\<close> and changes nothing.
\<close>

theorem update_gist_idempotent:
  assumes "\<not> get_fails st" and "files st = (l, b) # rest"
  shows "(b = content \<and> l = t \<longrightarrow> update_gist s t content st = (Inr False, st))
       \<and> (\<not> (b = content \<and> l = t) \<longrightarrow>
            edits (snd (update_gist s t content st)) = edits st @ [(l, t, content)]
          \<and> (\<not> edit_fails st \<longrightarrow>
               update_gist s t content st =
                 (Inr True,
                  st\<lparr>edits := edits st @ [(l, t, content)],
                     files := (t, content) #
                       map (\<lambda>(k, v). if k = l then (t, content) else (k, v)) rest\<rparr>)))
       \<and> (\<not> edit_fails st \<longrightarrow>
            update_gist s t content (snd (update_gist s t content st)) =
              (Inr False, snd (update_gist s t content st)))"
  using assms
  by (auto simp: update_gist_def get_gist_def gist_edit_def Let_def)

text \<open>
  A record with the section \<open>("old", "x")\<close>, updated twice to \<open>("new", "y")\<close>: the first
  call writes once and returns \<open>True\<close>, the second returns \<open>False\<close> and writes nothing.
\<close>

theorem update_gist_idempotent_witness:
  "update_gist
     \<lparr>gist_id = ascii ''g'', code_stats_username = [], stats_type = LEVEL_XP,
        top_languages_count = 10, codestats_api_base_url = [], max_line_length = 54\<rparr>
     (ascii ''new'') (ascii ''y'')
     \<lparr>files = [(ascii ''old'', ascii ''x'')], get_fails = False, edit_fails = False,
        edits = []\<rparr> =
   (Inr True,
    \<lparr>files = [(ascii ''new'', ascii ''y'')], get_fails = False, edit_fails = False,
       edits = [(ascii ''old'', ascii ''new'', ascii ''y'')]\<rparr>)
   \<and> update_gist
     \<lparr>gist_id = ascii ''g'', code_stats_username = [], stats_type = LEVEL_XP,
        top_languages_count = 10, codestats_api_base_url = [], max_line_length = 54\<rparr>
     (ascii ''new'') (ascii ''y'')
     \<lparr>files = [(ascii ''new'', ascii ''y'')], get_fails = False, edit_fails = False,
        edits = [(ascii ''old'', ascii ''new'', ascii ''y'')]\<rparr> =
   (Inr False,
    \<lparr>files = [(ascii ''new'', ascii ''y'')], get_fails = False, edit_fails = False,
       edits = [(ascii ''old'', ascii ''new'', ascii ''y'')]\<rparr>)"
  using update_gist_idempotent
    [of "\<lparr>files = [(ascii ''old'', ascii ''x'')], get_fails = False, edit_fails = False,
           edits = []\<rparr>"
        "ascii ''old''" "ascii ''x''" "[]" "ascii ''y''" "ascii ''new''"
        "\<lparr>gist_id = ascii ''g'', code_stats_username = [], stats_type = LEVEL_XP,
           top_languages_count = 10, codestats_api_base_url = [], max_line_length = 54\<rparr>"]
  by (auto simp: ascii_def)

section \<open>Level calculator\<close>

lemma level_of_int_negative: "x < 0 \<Longrightarrow> level_of_int x = Inr 0"
  by (simp add: level_of_int_def)

lemma level_of_int_0: "level_of_int 0 = Inr 0"
  by code_simp

lemma level_of_int_million: "level_of_int 1000000 = Inr 25"
  by code_simp

lemma calculate_level_non_numeric: "non_numeric v \<Longrightarrow> calculate_level v = Inl (Py TypeError)"
  by (cases v) simp_all

text \<open>
  C9. At \<open>xp = 159999999999999999\<close>, an integer of the 64-bit range, the conversion to a
  double rounds \<open>xp\<close> up to \<open>160000000000000000\<close>, whose square root is \<open>400000000\<close>, and
  \<open>calculate_level\<close> returns \<open>10000000\<close>; the formula of the claim,
  \<open>floor (0.025 * sqrt xp)\<close>, gives \<open>9999999\<close>.
\<close>

theorem level_of_large_xp:
  "calculate_level (PInt 159999999999999999) = Inr 10000000
   \<and> \<lfloor>0.025 * sqrt 159999999999999999\<rfloor> = (9999999 :: int)"
proof
  have "level_of_int 159999999999999999 = Inr 10000000" by code_simp
  then show "calculate_level (PInt 159999999999999999) = Inr 10000000" by simp
next
  have lo: "(399999960 :: real) \<le> sqrt 159999999999999999"
    by (rule real_le_rsqrt) simp
  have hi: "sqrt 159999999999999999 < (400000000 :: real)"
    by (rule real_less_lsqrt) simp_all
  show "\<lfloor>0.025 * sqrt 159999999999999999\<rfloor> = (9999999 :: int)"
    using lo hi by (simp add: floor_eq_iff)
qed

section \<open>Statistics model construction\<close>

lemma languages_from_items_append:
  "languages_from_items pre = Inr ls \<Longrightarrow>
   LanguageStats_from_api_response nm d = Inl err \<Longrightarrow>
   languages_from_items (pre @ (nm, d) # post) = Inl err"
  by (induction pre arbitrary: ls) (auto split: sum.splits)

text \<open>
  A \<open>TypeError\<close> of the construction reaches the caller of \<open>get_user_stats\<close> as a
  \<open>CodeStatsAPIError\<close>; so does the \<open>TypeError\<close> of the log entry, when \<open>languages\<close> has
  no length.
\<close>

lemma fetch_type_error:
  assumes "is_success status"
    and "UserStats_from_api_response (code_stats_username settings) (PDict kvs) =
           Inl (Py TypeError)"
  shows "get_user_stats settings (\<lambda>n. Response status (Some (PDict kvs))) =
           (Inl (CodeStatsAPIError (ParseFailed (code_stats_username settings) TypeError)), 1, [])"
proof (cases "dict_get kvs (ascii ''languages'') (PDict [])" rule: py_len.cases)
  case (1 s)
  with assms show ?thesis
    by (simp add: get_user_stats_one_attempt get_user_stats_attempt_def
        del: UserStats_from_api_response.simps)
next
  case (2 xs)
  with assms show ?thesis
    by (simp add: get_user_stats_one_attempt get_user_stats_attempt_def
        del: UserStats_from_api_response.simps)
next
  case (3 kvs')
  with assms show ?thesis
    by (simp add: get_user_stats_one_attempt get_user_stats_attempt_def
        del: UserStats_from_api_response.simps)
qed (use assms in \<open>simp_all add: get_user_stats_one_attempt get_user_stats_attempt_def
       del: UserStats_from_api_response.simps\<close>)

text \<open>
  C2, as stated, fails. For the payload \<open>{"total_xp": "abc"}\<close> the construction raises a
  plain \<open>TypeError\<close>, not \<open>DataValidationError\<close>, and the fetch path reports a
  \<open>CodeStatsAPIError\<close>; for the payload \<open>{"new_xp": "abc"}\<close> the construction does not
  fail and the string is stored.
\<close>

theorem string_total_xp_is_type_error:
  "UserStats_from_api_response (ascii ''u'') (PDict [(ascii ''total_xp'', PStr (ascii ''abc''))]) =
     Inl (Py TypeError)
   \<and> UserStats_from_api_response (ascii ''u'')
        (PDict [(ascii ''total_xp'', PStr (ascii ''abc''))]) \<noteq> Inl DataValidationError
   \<and> fst (get_user_stats
        \<lparr>gist_id = [], code_stats_username = ascii ''u'', stats_type = LEVEL_XP,
           top_languages_count = 10, codestats_api_base_url = [], max_line_length = 54\<rparr>
        (\<lambda>n. Response 200 (Some (PDict [(ascii ''total_xp'', PStr (ascii ''abc''))])))) =
     Inl (CodeStatsAPIError (ParseFailed (ascii ''u'') TypeError))
   \<and> UserStats_from_api_response (ascii ''u'') (PDict [(ascii ''new_xp'', PStr (ascii ''abc''))]) =
     Inr \<lparr>username = ascii ''u'', total_xp = PInt 0, user_new_xp = PStr (ascii ''abc''),
          user_level = 0, languages = []\<rparr>"
  by (simp add: dict_get_def ascii_def level_of_int_0 get_user_stats_one_attempt
      get_user_stats_attempt_def is_success_def)

text \<open>
  C2, amended. Let \<open>v\<close> be no number (\<open>None\<close>, a string, a list or a dictionary). A language
  entry whose \<open>xps\<close> is \<open>v\<close> makes \<open>LanguageStats.from_api_response\<close> raise \<open>TypeError\<close>. A
  payload whose \<open>total_xp\<close> is \<open>v\<close> makes \<open>UserStats.from_api_response\<close> raise
  \<open>TypeError\<close>, and so does a payload whose \<open>total_xp\<close> is accepted and whose \<open>languages\<close>
  hold such an entry after entries that are accepted. On a 2xx response whose payload
  makes the construction raise \<open>TypeError\<close>, \<open>get_user_stats\<close> raises \<open>CodeStatsAPIError\<close>,
  a parse failure, after one attempt.
\<close>

theorem non_numeric_xp_is_parse_failure:
  assumes "non_numeric v"
  shows "(map_of lkvs (ascii ''xps'') = Some v \<longrightarrow>
            LanguageStats_from_api_response nm (PDict lkvs) = Inl (Py TypeError))
       \<and> (map_of kvs (ascii ''total_xp'') = Some v \<longrightarrow>
            UserStats_from_api_response u (PDict kvs) = Inl (Py TypeError))
       \<and> (calculate_level (dict_get kvs (ascii ''total_xp'') (PInt 0)) = Inr lvl
            \<and> map_of kvs (ascii ''languages'') = Some (PDict (pre @ (nm, PDict lkvs) # post))
            \<and> languages_from_items pre = Inr ls
            \<and> map_of lkvs (ascii ''xps'') = Some v \<longrightarrow>
            UserStats_from_api_response u (PDict kvs) = Inl (Py TypeError))
       \<and> (is_success status
            \<and> UserStats_from_api_response (code_stats_username settings) (PDict kvs) =
                Inl (Py TypeError) \<longrightarrow>
            get_user_stats settings (\<lambda>n. Response status (Some (PDict kvs))) =
              (Inl (CodeStatsAPIError (ParseFailed (code_stats_username settings) TypeError)),
               1, []))"
proof (intro conjI impI)
  assume "map_of lkvs (ascii ''xps'') = Some v"
  with assms show "LanguageStats_from_api_response nm (PDict lkvs) = Inl (Py TypeError)"
    by (simp add: dict_get_def calculate_level_non_numeric)
next
  assume "map_of kvs (ascii ''total_xp'') = Some v"
  with assms show "UserStats_from_api_response u (PDict kvs) = Inl (Py TypeError)"
    by (simp add: dict_get_def calculate_level_non_numeric)
next
  assume a: "calculate_level (dict_get kvs (ascii ''total_xp'') (PInt 0)) = Inr lvl
            \<and> map_of kvs (ascii ''languages'') = Some (PDict (pre @ (nm, PDict lkvs) # post))
            \<and> languages_from_items pre = Inr ls
            \<and> map_of lkvs (ascii ''xps'') = Some v"
  then have "LanguageStats_from_api_response nm (PDict lkvs) = Inl (Py TypeError)"
    using assms by (simp add: dict_get_def calculate_level_non_numeric)
  with a have "languages_from_items (pre @ (nm, PDict lkvs) # post) = Inl (Py TypeError)"
    by (simp add: languages_from_items_append)
  with a show "UserStats_from_api_response u (PDict kvs) = Inl (Py TypeError)"
    by (simp add: dict_get_def)
next
  assume "is_success status
            \<and> UserStats_from_api_response (code_stats_username settings) (PDict kvs) =
                Inl (Py TypeError)"
  then show "get_user_stats settings (\<lambda>n. Response status (Some (PDict kvs))) =
              (Inl (CodeStatsAPIError (ParseFailed (code_stats_username settings) TypeError)),
               1, [])"
    by (simp add: fetch_type_error)
qed

text \<open>
  The payload \<open>{"total_xp": null}\<close>, and the payload whose language \<open>Python\<close>, after the
  language \<open>C\<close> with 100 XP, has the \<open>xps\<close> \<open>"abc"\<close>.
\<close>

theorem non_numeric_xp_is_parse_failure_witness:
  "get_user_stats
     \<lparr>gist_id = [], code_stats_username = ascii ''u'', stats_type = LEVEL_XP,
        top_languages_count = 10, codestats_api_base_url = [], max_line_length = 54\<rparr>
     (\<lambda>n. Response 200 (Some (PDict [(ascii ''total_xp'', PNone)]))) =
   (Inl (CodeStatsAPIError (ParseFailed (ascii ''u'') TypeError)), 1, [])
   \<and> UserStats_from_api_response (ascii ''u'')
       (PDict [(ascii ''languages'',
                PDict [(ascii ''C'', PDict [(ascii ''xps'', PInt 100)]),
                       (ascii ''Python'', PDict [(ascii ''xps'', PStr (ascii ''abc''))])])]) =
     Inl (Py TypeError)"
proof
  have z: "level_of_int 100 = Inr 0" by code_simp
  show "get_user_stats
     \<lparr>gist_id = [], code_stats_username = ascii ''u'', stats_type = LEVEL_XP,
        top_languages_count = 10, codestats_api_base_url = [], max_line_length = 54\<rparr>
     (\<lambda>n. Response 200 (Some (PDict [(ascii ''total_xp'', PNone)]))) =
   (Inl (CodeStatsAPIError (ParseFailed (ascii ''u'') TypeError)), 1, [])"
    using non_numeric_xp_is_parse_failure
      [where v = PNone and kvs = "[(ascii ''total_xp'', PNone)]" and u = "ascii ''u''"
         and status = 200
         and settings = "\<lparr>gist_id = [], code_stats_username = ascii ''u'',
           stats_type = LEVEL_XP, top_languages_count = 10, codestats_api_base_url = [],
           max_line_length = 54\<rparr>"]
    by (simp add: is_success_def)
  show "UserStats_from_api_response (ascii ''u'')
       (PDict [(ascii ''languages'',
                PDict [(ascii ''C'', PDict [(ascii ''xps'', PInt 100)]),
                       (ascii ''Python'', PDict [(ascii ''xps'', PStr (ascii ''abc''))])])]) =
     Inl (Py TypeError)"
    using non_numeric_xp_is_parse_failure
      [where v = "PStr (ascii ''abc'')"
         and kvs = "[(ascii ''languages'',
                PDict [(ascii ''C'', PDict [(ascii ''xps'', PInt 100)]),
                       (ascii ''Python'', PDict [(ascii ''xps'', PStr (ascii ''abc''))])])]"
         and u = "ascii ''u''" and lvl = 0
         and pre = "[(ascii ''C'', PDict [(ascii ''xps'', PInt 100)])]"
         and nm = "ascii ''Python''"
         and lkvs = "[(ascii ''xps'', PStr (ascii ''abc''))]" and post = "[]"
         and ls = "[\<lparr>name = ascii ''C'', xp = PInt 100, new_xp = PInt 0, level = 0\<rparr>]"]
    by (simp add: dict_get_def ascii_def level_of_int_0 z
        del: UserStats_from_api_response.simps)
qed

end
